theory Spec2Isabelle
  imports Complex_Main
begin

section \<open>Numbers\<close>

text \<open>
  JavaScript numbers are modelled as real numbers: every price, weight and confidence of the
  platform is a finite double, and the properties below are about the arithmetic the code
  writes down, not about rounding in the last binary digit. Where the source divides by a
  number that can be zero, the model writes the JavaScript outcome out (\<open>Infinity\<close>,
  \<open>NaN\<close>) instead of relying on division by zero in HOL.
\<close>

definition clampTo :: "real \<Rightarrow> real \<Rightarrow> real \<Rightarrow> real" where
  \<comment> \<open>\<^verbatim>\<open>Math.max(lo, Math.min(hi, x))\<close>\<close>
  "clampTo lo hi x = max lo (min hi x)"

text \<open>
  The result of a JavaScript division whose divisor may be zero: a finite number,
  \<^verbatim>\<open>Infinity\<close>, \<^verbatim>\<open>-Infinity\<close> or \<^verbatim>\<open>NaN\<close> (signed zeros are not distinguished).
\<close>

datatype jsnum = Finite real | PosInfinity | NegInfinity | NaN

definition jsDivide :: "real \<Rightarrow> real \<Rightarrow> jsnum" where
  "jsDivide n d =
     (if d \<noteq> 0 then Finite (n / d)
      else if n > 0 then PosInfinity
      else if n < 0 then NegInfinity
      else NaN)"

fun jsGreater :: "jsnum \<Rightarrow> real \<Rightarrow> bool" where
  \<comment> \<open>\<^verbatim>\<open>a > r\<close>; every comparison with \<^verbatim>\<open>NaN\<close> is false\<close>
  "jsGreater (Finite x) r = (x > r)"
| "jsGreater PosInfinity r = True"
| "jsGreater NegInfinity r = False"
| "jsGreater NaN r = False"

fun jsTimes :: "jsnum \<Rightarrow> real \<Rightarrow> jsnum" where
  \<comment> \<open>\<^verbatim>\<open>a * r\<close> for a positive constant \<open>r\<close>\<close>
  "jsTimes (Finite x) r = Finite (x * r)"
| "jsTimes a r = a"

definition jsRound :: "real \<Rightarrow> real" where
  \<comment> \<open>\<^verbatim>\<open>Math.round\<close>: the nearest integer, a tie going up\<close>
  "jsRound x = of_int \<lfloor>x + 1 / 2\<rfloor>"

fun jsRoundNum :: "jsnum \<Rightarrow> jsnum" where
  "jsRoundNum (Finite x) = Finite (jsRound x)"
| "jsRoundNum a = a"

definition toFixed :: "nat \<Rightarrow> real \<Rightarrow> real" where
  \<comment> \<open>the number that \<^verbatim>\<open>x.toFixed(d)\<close> prints: \<open>d\<close> decimals, a tie going away from zero\<close>
  "toFixed d x =
     (if x < 0 then - (of_int \<lfloor>(- x) * 10 ^ d + 1 / 2\<rfloor> / 10 ^ d)
      else of_int \<lfloor>x * 10 ^ d + 1 / 2\<rfloor> / 10 ^ d)"

fun toFixedNum :: "nat \<Rightarrow> jsnum \<Rightarrow> jsnum" where
  \<comment> \<open>\<^verbatim>\<open>parseFloat(a.toFixed(d))\<close>: the strings \<^verbatim>\<open>"Infinity"\<close> and \<^verbatim>\<open>"NaN"\<close> parse back\<close>
  "toFixedNum d (Finite x) = Finite (toFixed d x)"
| "toFixedNum d a = a"

fun jsPlus :: "jsnum \<Rightarrow> real \<Rightarrow> jsnum" where
  \<comment> \<open>\<^verbatim>\<open>a + r\<close> for a finite number \<open>r\<close>\<close>
  "jsPlus (Finite x) r = Finite (x + r)"
| "jsPlus a r = a"

fun clampNum :: "real \<Rightarrow> real \<Rightarrow> jsnum \<Rightarrow> jsnum" where
  \<comment> \<open>\<^verbatim>\<open>Math.max(lo, Math.min(hi, a))\<close>; \<^verbatim>\<open>NaN\<close> goes through both\<close>
  "clampNum lo hi (Finite x) = Finite (clampTo lo hi x)"
| "clampNum lo hi PosInfinity = Finite (max lo hi)"
| "clampNum lo hi NegInfinity = Finite lo"
| "clampNum lo hi NaN = NaN"

text \<open>The one exception the modelled code throws.\<close>

datatype error = TypeError

section \<open>Plain objects as tables\<close>

text \<open>
  The weight tables are plain objects. Reading \<^verbatim>\<open>table[key]\<close> finds the table's own
  entry or, failing that, what every object inherits from \<^verbatim>\<open>Object.prototype\<close>: a
  method under eleven names, and the prototype itself under \<^verbatim>\<open>__proto__\<close>. Writing
  \<^verbatim>\<open>table[key] = v\<close> creates or replaces the table's own entry, except under
  \<^verbatim>\<open>__proto__\<close>, whose setter ignores a number.
\<close>

definition inheritedMethodKeys :: "string list" where
  "inheritedMethodKeys =
     [''constructor'', ''__defineGetter__'', ''__defineSetter__'', ''hasOwnProperty'',
      ''__lookupGetter__'', ''__lookupSetter__'', ''isPrototypeOf'', ''propertyIsEnumerable'',
      ''toString'', ''valueOf'', ''toLocaleString'']"

definition objectPrototypeKeys :: "string list" where
  "objectPrototypeKeys = ''__proto__'' # inheritedMethodKeys"

datatype property = Own jsnum | Inherited | Missing

definition getProperty :: "(string \<rightharpoonup> jsnum) \<Rightarrow> string \<Rightarrow> property" where
  "getProperty table key =
     (case table key of
        Some v \<Rightarrow> Own v
      | None \<Rightarrow> if key \<in> set objectPrototypeKeys then Inherited else Missing)"

definition setProperty :: "(string \<rightharpoonup> jsnum) \<Rightarrow> string \<Rightarrow> jsnum \<Rightarrow> (string \<rightharpoonup> jsnum)" where
  "setProperty table key v = (if key = ''__proto__'' then table else table(key \<mapsto> v))"

section \<open>Adaptive weight learner (reinforcementLearning.js)\<close>

datatype tradeResult = WIN | LOSS | BREAKEVEN | OPEN

text \<open>The fields of a trade record that \<^verbatim>\<open>learnFromTrade\<close> reads.\<close>

record trade =
  result :: tradeResult
  timeframe :: "string option"
  smartMoneyPatterns :: "string list"
  mlProbability :: real

text \<open>
  The learner's mutable fields. \<^verbatim>\<open>modelWeights\<close> is kept as an association list in key
  order because the source iterates over its \<^verbatim>\<open>Object.keys\<close>; the two other tables are
  read and written under the tags of a trade, so they are plain-object tables, whose
  entries can come to hold \<^verbatim>\<open>NaN\<close>.
\<close>

record weightState =
  modelWeights :: "(string \<times> real) list"
  timeframeWeights :: "string \<rightharpoonup> jsnum"
  patternWeights :: "string \<rightharpoonup> jsnum"
  learningRate :: real

definition defaultWeights :: weightState where
  "defaultWeights =
     \<lparr> modelWeights = [(''randomForest'', 30 / 100), (''gradientBoosting'', 35 / 100),
                       (''lstm'', 35 / 100)],
       timeframeWeights = [''5M'' \<mapsto> Finite 1, ''15M'' \<mapsto> Finite 1, ''1H'' \<mapsto> Finite 1,
                           ''4H'' \<mapsto> Finite 1],
       patternWeights = [''BULLISH_SWEEP'' \<mapsto> Finite 1, ''BEARISH_SWEEP'' \<mapsto> Finite 1,
                         ''BULLISH_OB'' \<mapsto> Finite 1, ''BEARISH_OB'' \<mapsto> Finite 1,
                         ''BULLISH_BOS'' \<mapsto> Finite 1, ''BEARISH_BOS'' \<mapsto> Finite 1,
                         ''BULLISH_CHOCH'' \<mapsto> Finite 1, ''BEARISH_CHOCH'' \<mapsto> Finite 1],
       learningRate = 5 / 100 \<rparr>"

text \<open>
  \<^verbatim>\<open>normalizeModelWeights\<close>: divide every model weight by the total. The source calls it
  only right after clamping every weight to at least 0.1, so the total is positive there
  (lemma \<open>clamped_total_pos\<close> below).
\<close>

definition normalizeModelWeights :: "weightState \<Rightarrow> weightState" where
  "normalizeModelWeights s =
     (let total = sum_list (map snd (modelWeights s))
      in s\<lparr>modelWeights := map (\<lambda>(k, w). (k, w / total)) (modelWeights s)\<rparr>)"

text \<open>
  The three numbered steps of \<^verbatim>\<open>learnFromTrade\<close>: the weight of the trade's timeframe,
  the weight of each of its patterns, and the model weights. A timeframe that is
  \<^verbatim>\<open>undefined\<close> or the empty string is falsy, and so is a probability of zero.

  The guard \<^verbatim>\<open>table[tag] !== undefined\<close> also lets an inherited property through. Then
  \<^verbatim>\<open>currentWeight\<close> is a function (or the prototype), \<^verbatim>\<open>currentWeight + adjustment\<close> is
  a string that is no number, the new weight \<^verbatim>\<open>NaN\<close> is written to the table, and
  \<^verbatim>\<open>currentWeight.toFixed\<close> in the log line throws a \<^verbatim>\<open>TypeError\<close>, which ends
  \<^verbatim>\<open>learnFromTrade\<close> there. A step returns the exception it threw, if any, and the state it
  leaves.
\<close>

definition adjustTimeframe ::
  "real \<Rightarrow> string option \<Rightarrow> weightState \<Rightarrow> error option \<times> weightState" where
  "adjustTimeframe reward tfo s =
     (case tfo of
        None \<Rightarrow> (None, s)
      | Some tf \<Rightarrow>
          (if tf = [] then (None, s)
           else case getProperty (timeframeWeights s) tf of
                  Missing \<Rightarrow> (None, s)
                | Own currentWeight \<Rightarrow>
                    (let adjustment = reward * learningRate s;
                         newWeight = clampNum (1 / 2) (3 / 2) (jsPlus currentWeight adjustment)
                     in (None,
                         s\<lparr>timeframeWeights := setProperty (timeframeWeights s) tf newWeight\<rparr>))
                | Inherited \<Rightarrow>
                    (Some TypeError,
                     s\<lparr>timeframeWeights := setProperty (timeframeWeights s) tf NaN\<rparr>)))"

definition adjustPattern :: "real \<Rightarrow> string \<Rightarrow> weightState \<Rightarrow> error option \<times> weightState" where
  "adjustPattern reward pattern s =
     (case getProperty (patternWeights s) pattern of
        Missing \<Rightarrow> (None, s)
      | Own currentWeight \<Rightarrow>
          (let adjustment = reward * learningRate s;
               newWeight = clampNum (1 / 2) (3 / 2) (jsPlus currentWeight adjustment)
           in (None, s\<lparr>patternWeights := setProperty (patternWeights s) pattern newWeight\<rparr>))
      | Inherited \<Rightarrow>
          (Some TypeError, s\<lparr>patternWeights := setProperty (patternWeights s) pattern NaN\<rparr>))"

text \<open>The loop over the patterns of the trade; an exception leaves it.\<close>

fun adjustPatterns :: "real \<Rightarrow> string list \<Rightarrow> weightState \<Rightarrow> error option \<times> weightState" where
  "adjustPatterns reward [] s = (None, s)"
| "adjustPatterns reward (pattern # rest) s =
     (case adjustPattern reward pattern s of
        (Some e, s') \<Rightarrow> (Some e, s')
      | (None, s') \<Rightarrow> adjustPatterns reward rest s')"

definition adjustModels :: "real \<Rightarrow> real \<Rightarrow> weightState \<Rightarrow> weightState" where
  "adjustModels reward prob s =
     (if prob = 0 then s
      else
        (let probConfidence = prob / 100;
             mlAdjustment = reward * learningRate s * probConfidence
         in normalizeModelWeights
              (s\<lparr>modelWeights :=
                   map (\<lambda>(k, currentWeight).
                          (k, clampTo (1 / 10) (6 / 10) (currentWeight + mlAdjustment * currentWeight)))
                       (modelWeights s)\<rparr>)))"

definition learnFromTrade :: "weightState \<Rightarrow> trade \<Rightarrow> error option \<times> weightState" where
  "learnFromTrade s t =
     (if result t = OPEN then (None, s)
      else
        (let isWin = (result t = WIN);
             reward = (if isWin then 1 else - 1)
         in case adjustTimeframe reward (timeframe t) s of
              (Some e, s1) \<Rightarrow> (Some e, s1)
            | (None, s1) \<Rightarrow>
                (case adjustPatterns reward (smartMoneyPatterns t) s1 of
                   (Some e, s2) \<Rightarrow> (Some e, s2)
                 | (None, s2) \<Rightarrow> (None, adjustModels reward (mlProbability t) s2))))"


section \<open>Structure detector (smartMoneyEngine.js)\<close>

text \<open>A candle; the field \<^verbatim>\<open>open\<close> is written \<open>opn\<close>, since \<open>open\<close> is a keyword.\<close>

record candle =
  timestamp :: int
  opn :: real
  high :: real
  low :: real
  close :: real
  volume :: real

text \<open>
  \<^verbatim>\<open>candles[i]\<close>: reading an index outside the array gives \<^verbatim>\<open>undefined\<close>, and the
  property access that follows throws a \<^verbatim>\<open>TypeError\<close>.
\<close>

definition candleAt :: "candle list \<Rightarrow> int \<Rightarrow> candle option" where
  "candleAt candles i =
     (if 0 \<le> i \<and> i < int (length candles) then Some (candles ! nat i) else None)"

record swingPoint =
  sp_index :: int
  sp_price :: real

text \<open>
  The loop of \<^verbatim>\<open>isSwingHigh\<close>, over the indices it still has to visit:
  \<^verbatim>\<open>for (let i = index - lookback; i < index + lookback; i++)\<close>.
\<close>

fun swingHighLoop :: "candle list \<Rightarrow> real \<Rightarrow> int \<Rightarrow> int list \<Rightarrow> error + bool" where
  "swingHighLoop candles currentHigh index [] = Inr True"
| "swingHighLoop candles currentHigh index (i # rest) =
     (if i = index then swingHighLoop candles currentHigh index rest
      else case candleAt candles i of
             None \<Rightarrow> Inl TypeError
           | Some c \<Rightarrow>
               (if high c \<ge> currentHigh then Inr False
                else swingHighLoop candles currentHigh index rest))"

definition isSwingHigh :: "candle list \<Rightarrow> int \<Rightarrow> int \<Rightarrow> error + bool" where
  "isSwingHigh candles index lookback =
     (case candleAt candles index of
        None \<Rightarrow> Inl TypeError
      | Some c \<Rightarrow> swingHighLoop candles (high c) index [index - lookback .. index + lookback - 1])"

fun swingLowLoop :: "candle list \<Rightarrow> real \<Rightarrow> int \<Rightarrow> int list \<Rightarrow> error + bool" where
  "swingLowLoop candles currentLow index [] = Inr True"
| "swingLowLoop candles currentLow index (i # rest) =
     (if i = index then swingLowLoop candles currentLow index rest
      else case candleAt candles i of
             None \<Rightarrow> Inl TypeError
           | Some c \<Rightarrow>
               (if low c \<le> currentLow then Inr False
                else swingLowLoop candles currentLow index rest))"

definition isSwingLow :: "candle list \<Rightarrow> int \<Rightarrow> int \<Rightarrow> error + bool" where
  "isSwingLow candles index lookback =
     (case candleAt candles index of
        None \<Rightarrow> Inl TypeError
      | Some c \<Rightarrow> swingLowLoop candles (low c) index [index - lookback .. index + lookback - 1])"

record swingPoints =
  highs :: "swingPoint list"
  lows :: "swingPoint list"

text \<open>
  The loop of \<^verbatim>\<open>identifySwingPoints\<close>,
  \<^verbatim>\<open>for (let i = lookback; i < candles.length - lookback; i++)\<close>, with the two result
  arrays as accumulators.
\<close>

fun swingPointsLoop ::
  "candle list \<Rightarrow> int \<Rightarrow> int list \<Rightarrow> swingPoints \<Rightarrow> error + swingPoints" where
  "swingPointsLoop candles lookback [] acc = Inr acc"
| "swingPointsLoop candles lookback (i # rest) acc =
     (case isSwingHigh candles i lookback of
        Inl e \<Rightarrow> Inl e
      | Inr isHigh \<Rightarrow>
          (case isSwingLow candles i lookback of
             Inl e \<Rightarrow> Inl e
           | Inr isLow \<Rightarrow>
               (case candleAt candles i of
                  None \<Rightarrow> Inl TypeError
                | Some c \<Rightarrow>
                    (let acc1 = (if isHigh
                                 then acc\<lparr>highs := highs acc @ [\<lparr>sp_index = i, sp_price = high c\<rparr>]\<rparr>
                                 else acc);
                         acc2 = (if isLow
                                 then acc1\<lparr>lows := lows acc1 @ [\<lparr>sp_index = i, sp_price = low c\<rparr>]\<rparr>
                                 else acc1)
                     in swingPointsLoop candles lookback rest acc2))))"

definition identifySwingPoints :: "candle list \<Rightarrow> int \<Rightarrow> error + swingPoints" where
  "identifySwingPoints candles lookback =
     swingPointsLoop candles lookback [lookback .. int (length candles) - lookback - 1]
       \<lparr>highs = [], lows = []\<rparr>"


subsection \<open>Order blocks\<close>

datatype obType = BULLISH_OB | BEARISH_OB

record orderBlock =
  ob_type :: obType
  ob_index :: nat
  ob_high :: real
  ob_low :: real
  ob_open :: real
  ob_close :: real
  ob_strength :: jsnum
  mitigated :: bool
  tested :: bool

text \<open>
  The body of the detection loop at position \<open>i\<close>; the loop keeps \<open>i + 1\<close> inside the
  array. The move size divides by \<^verbatim>\<open>next.open\<close>.
\<close>

definition orderBlocksAt :: "candle list \<Rightarrow> nat \<Rightarrow> orderBlock list" where
  "orderBlocksAt candles i =
     (let current = candles ! i;
          next = candles ! (i + 1);
          upMove = jsDivide (close next - opn next) (opn next);
          downMove = jsDivide (opn next - close next) (opn next)
      in (if close current < opn current \<and> close next > opn next \<and> jsGreater upMove (5 / 1000)
          then [\<lparr>ob_type = BULLISH_OB, ob_index = i, ob_high = high current, ob_low = low current,
                  ob_open = opn current, ob_close = close current,
                  ob_strength = jsRoundNum (jsTimes upMove 100),
                  mitigated = False, tested = False\<rparr>]
          else []) @
         (if close current > opn current \<and> close next < opn next \<and> jsGreater downMove (5 / 1000)
          then [\<lparr>ob_type = BEARISH_OB, ob_index = i, ob_high = high current, ob_low = low current,
                  ob_open = opn current, ob_close = close current,
                  ob_strength = jsRoundNum (jsTimes downMove 100),
                  mitigated = False, tested = False\<rparr>]
          else []))"

definition orderBlockCandidates :: "candle list \<Rightarrow> orderBlock list" where
  \<comment> \<open>\<^verbatim>\<open>for (let i = 2; i < candles.length - 1; i++)\<close>\<close>
  "orderBlockCandidates candles = concat (map (orderBlocksAt candles) [2 ..< length candles - 1])"

text \<open>
  The inner loop of \<^verbatim>\<open>checkOrderBlockMitigation\<close> for one order block, over the candles
  after the block; \<^verbatim>\<open>break\<close> ends the scan at the first mitigation.
\<close>

fun mitigationLoop :: "orderBlock \<Rightarrow> candle list \<Rightarrow> orderBlock" where
  "mitigationLoop ob [] = ob"
| "mitigationLoop ob (candle # rest) =
     (case ob_type ob of
        BULLISH_OB \<Rightarrow>
          (if low candle \<le> ob_high ob \<and> low candle \<ge> ob_low ob
           then (if close candle < ob_low ob then ob\<lparr>mitigated := True, tested := True\<rparr>
                 else mitigationLoop (ob\<lparr>tested := True\<rparr>) rest)
           else mitigationLoop ob rest)
      | BEARISH_OB \<Rightarrow>
          (if high candle \<ge> ob_low ob \<and> high candle \<le> ob_high ob
           then (if close candle > ob_high ob then ob\<lparr>mitigated := True, tested := True\<rparr>
                 else mitigationLoop (ob\<lparr>tested := True\<rparr>) rest)
           else mitigationLoop ob rest))"

definition checkOrderBlockMitigation :: "candle list \<Rightarrow> orderBlock list \<Rightarrow> orderBlock list" where
  "checkOrderBlockMitigation candles orderBlocks =
     map (\<lambda>ob. mitigationLoop ob (drop (ob_index ob + 1) candles)) orderBlocks"

definition detectOrderBlocks :: "candle list \<Rightarrow> orderBlock list" where
  "detectOrderBlocks candles = checkOrderBlockMitigation candles (orderBlockCandidates candles)"

subsection \<open>Fair value gaps\<close>

datatype fvgType = BULLISH_FVG | BEARISH_FVG

record fairValueGap =
  fvg_type :: fvgType
  fvg_index :: nat
  fvg_top :: real
  fvg_bottom :: real
  fvg_size :: real
  filled :: bool
  partiallyFilled :: bool

definition fairValueGapsAt :: "candle list \<Rightarrow> nat \<Rightarrow> fairValueGap list" where
  "fairValueGapsAt candles i =
     (let candle1 = candles ! (i - 2);
          candle3 = candles ! i
      in (if high candle1 < low candle3
          then [\<lparr>fvg_type = BULLISH_FVG, fvg_index = i - 1, fvg_top = low candle3,
                  fvg_bottom = high candle1, fvg_size = low candle3 - high candle1,
                  filled = False, partiallyFilled = False\<rparr>]
          else []) @
         (if high candle3 < low candle1
          then [\<lparr>fvg_type = BEARISH_FVG, fvg_index = i - 1, fvg_top = low candle1,
                  fvg_bottom = high candle3, fvg_size = low candle1 - high candle3,
                  filled = False, partiallyFilled = False\<rparr>]
          else []))"

definition fairValueGapCandidates :: "candle list \<Rightarrow> fairValueGap list" where
  \<comment> \<open>\<^verbatim>\<open>for (let i = 2; i < candles.length; i++)\<close>\<close>
  "fairValueGapCandidates candles = concat (map (fairValueGapsAt candles) [2 ..< length candles])"

fun fillLoop :: "fairValueGap \<Rightarrow> real \<Rightarrow> candle list \<Rightarrow> fairValueGap" where
  "fillLoop fvg midPoint [] = fvg"
| "fillLoop fvg midPoint (candle # rest) =
     (case fvg_type fvg of
        BULLISH_FVG \<Rightarrow>
          (if low candle \<le> fvg_top fvg \<and> low candle \<ge> fvg_bottom fvg
           then (if low candle \<le> midPoint then fvg\<lparr>filled := True, partiallyFilled := True\<rparr>
                 else fillLoop (fvg\<lparr>partiallyFilled := True\<rparr>) midPoint rest)
           else fillLoop fvg midPoint rest)
      | BEARISH_FVG \<Rightarrow>
          (if high candle \<ge> fvg_bottom fvg \<and> high candle \<le> fvg_top fvg
           then (if high candle \<ge> midPoint then fvg\<lparr>filled := True, partiallyFilled := True\<rparr>
                 else fillLoop (fvg\<lparr>partiallyFilled := True\<rparr>) midPoint rest)
           else fillLoop fvg midPoint rest))"

definition checkFVGFill :: "candle list \<Rightarrow> fairValueGap list \<Rightarrow> fairValueGap list" where
  "checkFVGFill candles fvgs =
     map (\<lambda>fvg. fillLoop fvg ((fvg_top fvg + fvg_bottom fvg) / 2) (drop (fvg_index fvg + 1) candles)) fvgs"

definition detectFairValueGaps :: "candle list \<Rightarrow> fairValueGap list" where
  "detectFairValueGaps candles = checkFVGFill candles (fairValueGapCandidates candles)"

text \<open>
  ``The same structure instance'': two detections agree on everything but the two flags
  the later scan sets, and a flag that is set in the first is set in the second.
\<close>

definition obFlagsKept :: "orderBlock \<Rightarrow> orderBlock \<Rightarrow> bool" where
  "obFlagsKept a b =
     (ob_type b = ob_type a \<and> ob_index b = ob_index a \<and> ob_high b = ob_high a \<and>
      ob_low b = ob_low a \<and> ob_open b = ob_open a \<and> ob_close b = ob_close a \<and>
      ob_strength b = ob_strength a \<and>
      (mitigated a \<longrightarrow> mitigated b) \<and> (tested a \<longrightarrow> tested b))"

definition fvgFlagsKept :: "fairValueGap \<Rightarrow> fairValueGap \<Rightarrow> bool" where
  "fvgFlagsKept a b =
     (fvg_type b = fvg_type a \<and> fvg_index b = fvg_index a \<and> fvg_top b = fvg_top a \<and>
      fvg_bottom b = fvg_bottom a \<and> fvg_size b = fvg_size a \<and>
      (filled a \<longrightarrow> filled b) \<and> (partiallyFilled a \<longrightarrow> partiallyFilled b))"


section \<open>Multi-timeframe aggregator (smartMoneyEngine.js)\<close>

text \<open>The three values \<^verbatim>\<open>determineTrend\<close> returns, and the strings they are.\<close>

datatype trend = BULLISH | BEARISH | NEUTRAL

fun trendName :: "trend \<Rightarrow> string" where
  "trendName BULLISH = ''BULLISH''"
| "trendName BEARISH = ''BEARISH''"
| "trendName NEUTRAL = ''NEUTRAL''"

record liquidityZone =
  zone_price :: real
  zone_index :: int

record liquiditySweep =
  sweep_price :: real
  sweep_index :: nat

record liquidity =
  above :: "liquidityZone list"
  below :: "liquidityZone list"
  sweeps :: "liquiditySweep list"

record institutionalLevel =
  level_price :: real
  level_index :: int

text \<open>
  The analysis of one timeframe, with the fields the aggregator and the decision engine
  read. \<^verbatim>\<open>analyzeTimeframe\<close> always sets \<^verbatim>\<open>trend\<close>, \<^verbatim>\<open>liquidity\<close> and
  \<^verbatim>\<open>orderBlocks\<close>; \<^verbatim>\<open>institutionalLevel\<close> may be \<^verbatim>\<open>null\<close>. The decision engine also
  reads \<^verbatim>\<open>fairValueGaps\<close> (an array, or absent: \<open>None\<close>) and \<^verbatim>\<open>breakOfStructure\<close>
  (present and \<^verbatim>\<open>true\<close>, or not); \<^verbatim>\<open>analyzeTimeframe\<close> itself files its gaps and
  breaks under \<^verbatim>\<open>fvg\<close> and \<^verbatim>\<open>bos\<close>, so on its analyses the first is absent and the
  second is not set.
\<close>

record timeframeAnalysis =
  trend :: trend
  liquidity :: liquidity
  orderBlocks :: "orderBlock list"
  institutionalLevel :: "institutionalLevel option"
  fairValueGaps :: "fairValueGap list option"
  breakOfStructure :: bool

text \<open>The overall bias; its \<^verbatim>\<open>description\<close> text is left out.\<close>

record overallBias =
  direction :: string
  confidence :: real

definition determineOverallBias ::
  "timeframeAnalysis option \<Rightarrow> timeframeAnalysis option \<Rightarrow> overallBias option" where
  "determineOverallBias tf4H tf1H =
     (case tf4H of
        None \<Rightarrow> None
      | Some a4H \<Rightarrow>
          (case tf1H of
             None \<Rightarrow> None
           | Some a1H \<Rightarrow>
               (let bias4H = trend a4H; bias1H = trend a1H
                in if bias4H = bias1H \<and> bias4H \<noteq> NEUTRAL
                   then Some \<lparr>direction = trendName bias4H, confidence = 95\<rparr>
                   else if bias4H \<noteq> NEUTRAL \<and> bias1H = NEUTRAL
                   then Some \<lparr>direction = trendName bias4H, confidence = 75\<rparr>
                   else if bias4H \<noteq> bias1H \<and> bias4H \<noteq> NEUTRAL \<and> bias1H \<noteq> NEUTRAL
                   then Some \<lparr>direction = ''CONFLICTED'', confidence = 30\<rparr>
                   else Some \<lparr>direction = ''NEUTRAL'', confidence = 50\<rparr>)))"

record alignment =
  aligned :: bool
  align_direction :: string
  align_confidence :: real

definition engineTimeframes :: "string list" where
  \<comment> \<open>\<^verbatim>\<open>this.timeframes\<close>\<close>
  "engineTimeframes = [''4H'', ''1H'', ''15M'', ''5M'']"

definition collectTrends :: "(string \<rightharpoonup> timeframeAnalysis) \<Rightarrow> trend list" where
  "collectTrends tfs =
     concat (map (\<lambda>tf. case tfs tf of None \<Rightarrow> [] | Some a \<Rightarrow> [trend a]) engineTimeframes)"

definition checkAlignment :: "(string \<rightharpoonup> timeframeAnalysis) \<Rightarrow> alignment" where
  "checkAlignment tfs =
     (let trends = collectTrends tfs
      in if list_all (\<lambda>t. t = BULLISH) trends
         then \<lparr>aligned = True, align_direction = ''BULLISH'', align_confidence = 100\<rparr>
         else if list_all (\<lambda>t. t = BEARISH) trends
         then \<lparr>aligned = True, align_direction = ''BEARISH'', align_confidence = 100\<rparr>
         else
           (let bullishCount = length (filter (\<lambda>t. t = BULLISH) trends);
                bearishCount = length (filter (\<lambda>t. t = BEARISH) trends)
            in if bullishCount > bearishCount
               then \<lparr>aligned = False, align_direction = ''BULLISH'',
                     align_confidence = (real bullishCount / real (length trends)) * 100\<rparr>
               else if bearishCount > bullishCount
               then \<lparr>aligned = False, align_direction = ''BEARISH'',
                     align_confidence = (real bearishCount / real (length trends)) * 100\<rparr>
               else \<lparr>aligned = False, align_direction = ''NEUTRAL'', align_confidence = 50\<rparr>))"

record smartMoneyAnalysis =
  timeframes :: "string \<rightharpoonup> timeframeAnalysis"
  overallBias :: "overallBias option"
  alignment :: alignment

text \<open>
  The part of \<^verbatim>\<open>analyzeMultiTimeframe\<close> after the per-timeframe analyses: the overall
  bias from 4H and 1H, and the alignment of all of them.
\<close>

definition aggregate :: "(string \<rightharpoonup> timeframeAnalysis) \<Rightarrow> smartMoneyAnalysis" where
  "aggregate tfs =
     \<lparr>timeframes = tfs,
      overallBias = determineOverallBias (tfs ''4H'') (tfs ''1H''),
      alignment = checkAlignment tfs\<rparr>"


section \<open>Decision fusion engine (decisionEngine.js)\<close>

text \<open>
  The opinions of the three other engines, with the fields the gating reads. A technical
  confidence that is \<^verbatim>\<open>undefined\<close> or \<^verbatim>\<open>NaN\<close> is \<open>None\<close>; \<open>tech_indicators\<close> says
  that \<^verbatim>\<open>technical.indicators\<close> holds the indicators (the engine's fallback result has
  \<^verbatim>\<open>indicators: {}\<close>). The texts of a decision (justification, warnings,
  recommendations, next steps) and the pair it is for are left out; the fundamental and
  correlation analyses are the objects their engines build, which carry every field those
  texts read.
\<close>

record technicalAnalysis =
  tech_confidence :: "real option"
  tech_indicators :: bool

record fundamentalBias =
  fund_direction :: "string option"
  fund_confidence :: real

record fundamentalAnalysis =
  fundamentalBias :: "fundamentalBias option"

record correlationAnalysis =
  allowTrade :: bool

record thresholds =
  minMLProbability :: real
  minFundamentalConfidence :: real
  minSmartMoneyConfidence :: real
  minRiskReward :: real
  maxStopLossPercent :: real
  minConfluence :: nat

record decisionEngine =
  thresholds :: thresholds
  consecutiveLosses :: nat
  maxConsecutiveLosses :: nat

definition newDecisionEngine :: decisionEngine where
  \<comment> \<open>the constructor\<close>
  "newDecisionEngine =
     \<lparr>thresholds = \<lparr>minMLProbability = 58, minFundamentalConfidence = 50,
                     minSmartMoneyConfidence = 60, minRiskReward = 2,
                     maxStopLossPercent = 22 / 10, minConfluence = 3\<rparr>,
      consecutiveLosses = 0, maxConsecutiveLosses = 3\<rparr>"

text \<open>
  The value of one criterion. \<^verbatim>\<open>check5MEntry\<close> ends in
  \<^verbatim>\<open>tf5M.fairValueGaps && ...\<close>, which is \<^verbatim>\<open>undefined\<close> when the analysis has no such
  field; the engine counts a criterion as met only when it \<^verbatim>\<open>=== true\<close> and as failed
  only when it \<^verbatim>\<open>=== false\<close>.
\<close>

datatype jsval = JTrue | JFalse | JUndefined

definition jsBool :: "bool \<Rightarrow> jsval" where
  "jsBool b = (if b then JTrue else JFalse)"

type_synonym criteria = "(string \<times> jsval) list"

definition tfHas :: "smartMoneyAnalysis \<Rightarrow> string \<Rightarrow> (timeframeAnalysis \<Rightarrow> bool) \<Rightarrow> bool" where
  \<comment> \<open>\<^verbatim>\<open>tf?.\<close>\<open>\<dots>\<close> in a boolean position: false when the timeframe is absent\<close>
  "tfHas sm tf P = (case timeframes sm tf of None \<Rightarrow> False | Some a \<Rightarrow> P a)"

definition hasActiveOrderBlock :: "timeframeAnalysis \<Rightarrow> bool" where
  \<comment> \<open>\<^verbatim>\<open>orderBlocks.some(ob => !ob.mitigated)\<close>\<close>
  "hasActiveOrderBlock a = list_ex (\<lambda>ob. \<not> mitigated ob) (orderBlocks a)"

definition hasFairValueGaps :: "timeframeAnalysis \<Rightarrow> bool" where
  \<comment> \<open>\<^verbatim>\<open>fairValueGaps?.length > 0\<close>\<close>
  "hasFairValueGaps a = (case fairValueGaps a of None \<Rightarrow> False | Some gaps \<Rightarrow> gaps \<noteq> [])"

definition hasSweeps :: "timeframeAnalysis \<Rightarrow> bool" where
  "hasSweeps a = (sweeps (liquidity a) \<noteq> [])"

definition checkHigherTFAlignment :: "smartMoneyAnalysis \<Rightarrow> bool" where
  "checkHigherTFAlignment sm =
     (case timeframes sm ''4H'' of
        None \<Rightarrow> False
      | Some tf4H \<Rightarrow>
          (case timeframes sm ''1H'' of
             None \<Rightarrow> False
           | Some tf1H \<Rightarrow>
               (if trend tf4H = NEUTRAL \<and> trend tf1H = NEUTRAL then False
                else if trend tf4H \<noteq> NEUTRAL \<and> trend tf1H \<noteq> NEUTRAL \<and> trend tf4H \<noteq> trend tf1H
                then False
                else (case overallBias sm of
                        None \<Rightarrow> False
                      | Some bias \<Rightarrow> \<not> confidence bias < 55))))"

definition check15MConfirmation :: "smartMoneyAnalysis \<Rightarrow> bool" where
  "check15MConfirmation sm =
     (case timeframes sm ''15M'' of
        None \<Rightarrow> False
      | Some tf15M \<Rightarrow>
          (case overallBias sm of
             None \<Rightarrow> False
           | Some bias \<Rightarrow>
               (if direction bias = [] then False
                else if trend tf15M = NEUTRAL then True
                else trendName (trend tf15M) = direction bias)))"

definition check5MEntry :: "smartMoneyAnalysis \<Rightarrow> (string \<rightharpoonup> candle list) \<Rightarrow> jsval" where
  "check5MEntry sm marketData =
     (case timeframes sm ''5M'' of
        None \<Rightarrow> JFalse
      | Some tf5M \<Rightarrow>
          (case marketData ''5M'' of
             None \<Rightarrow> JFalse
           | Some candles \<Rightarrow>
               (let hasInstitutionalLevel = (institutionalLevel tf5M \<noteq> None);
                    hasOrderBlock = (orderBlocks tf5M \<noteq> [])
                in if hasInstitutionalLevel \<or> hasOrderBlock then JTrue
                   else (case fairValueGaps tf5M of
                           None \<Rightarrow> JUndefined
                         | Some gaps \<Rightarrow> jsBool (gaps \<noteq> [])))))"

definition checkSmartMoneyConfirmation :: "smartMoneyAnalysis \<Rightarrow> bool" where
  "checkSmartMoneyConfirmation sm =
     (let hasMinConfidence = (align_confidence (alignment sm) \<ge> 50);
          hasOrderBlock = (tfHas sm ''5M'' hasActiveOrderBlock \<or>
                           tfHas sm ''15M'' hasActiveOrderBlock \<or>
                           tfHas sm ''1H'' hasActiveOrderBlock);
          hasBOS = (tfHas sm ''5M'' breakOfStructure \<or> tfHas sm ''15M'' breakOfStructure \<or>
                    tfHas sm ''1H'' breakOfStructure);
          hasSweep = (tfHas sm ''5M'' hasSweeps \<or> tfHas sm ''15M'' hasSweeps \<or>
                      tfHas sm ''1H'' hasSweeps);
          hasSmartMoneySetup = (hasOrderBlock \<or> hasBOS \<or> hasSweep)
      in hasMinConfidence \<or> hasSmartMoneySetup)"

definition checkFundamentalAlignment :: "smartMoneyAnalysis \<Rightarrow> fundamentalAnalysis \<Rightarrow> bool" where
  "checkFundamentalAlignment sm fundamental =
     (let smDirection = map_option direction (overallBias sm);
          fundDirection = (case fundamentalBias fundamental of
                             None \<Rightarrow> None
                           | Some fb \<Rightarrow> fund_direction fb)
      in case fundDirection of
           None \<Rightarrow> True
         | Some fd \<Rightarrow>
             (if fd = [] \<or> fd = ''NEUTRAL'' then True
              else case fundamentalBias fundamental of
                     None \<Rightarrow> True
                   | Some fb \<Rightarrow>
                       (if fund_confidence fb > 70
                        then (if smDirection = Some ''BUY'' \<and> fd = ''SELL'' then False
                              else if smDirection = Some ''SELL'' \<and> fd = ''BUY'' then False
                              else True)
                        else True)))"

definition boolScore :: "bool \<Rightarrow> nat" where
  \<comment> \<open>\<^verbatim>\<open>if (\<dots>) score++\<close>\<close>
  "boolScore b = (if b then 1 else 0)"

definition calculateConfluence ::
  "smartMoneyAnalysis \<Rightarrow> technicalAnalysis \<Rightarrow> (string \<rightharpoonup> candle list) \<Rightarrow> nat" where
  "calculateConfluence sm technical marketData =
     (let lastCandle = (case marketData ''15M'' of
                          None \<Rightarrow> None
                        | Some candles15M \<Rightarrow> if candles15M = [] then None else Some (last candles15M));
          tf4H = timeframes sm ''4H'';
          tf1H = timeframes sm ''1H'';
          tf15M = timeframes sm ''15M'';
          has4H1HAlign = (case (tf4H, tf1H) of
                            (Some a, Some b) \<Rightarrow> trend a = trend b \<and> trend a \<noteq> NEUTRAL
                          | _ \<Rightarrow> False);
          has1H15MAlign = (case (tf1H, tf15M) of
                             (Some a, Some b) \<Rightarrow> trend a = trend b \<and> trend a \<noteq> NEUTRAL
                           | _ \<Rightarrow> False);
          hasOB = (tfHas sm ''5M'' hasActiveOrderBlock \<or> tfHas sm ''15M'' hasActiveOrderBlock \<or>
                   tfHas sm ''1H'' hasActiveOrderBlock);
          hasFVG = (tfHas sm ''5M'' hasFairValueGaps \<or> tfHas sm ''15M'' hasFairValueGaps);
          hasBOS = (tfHas sm ''5M'' breakOfStructure \<or> tfHas sm ''15M'' breakOfStructure);
          hasSweeps = (tfHas sm ''5M'' hasSweeps \<or> tfHas sm ''15M'' hasSweeps)
      in boolScore (case overallBias sm of None \<Rightarrow> False | Some bias \<Rightarrow> direction bias \<noteq> ''NEUTRAL'')
         + boolScore (align_confidence (alignment sm) \<ge> 40)
         + boolScore (case lastCandle of None \<Rightarrow> False | Some c \<Rightarrow> volume c > 500)
         + boolScore (case tech_confidence technical of None \<Rightarrow> False | Some c \<Rightarrow> c \<noteq> 0 \<and> c > 55)
         + boolScore (has4H1HAlign \<or> has1H15MAlign)
         + boolScore hasOB
         + boolScore (hasFVG \<or> hasBOS \<or> hasSweeps))"

definition checkNotRanging :: "(string \<rightharpoonup> candle list) \<Rightarrow> bool" where
  "checkNotRanging marketData =
     (case marketData ''4H'' of
        None \<Rightarrow> True
      | Some candles4H \<Rightarrow>
          (if length candles4H < 20 then True
           else
             (let recent = drop (length candles4H - 20) candles4H
              in case recent of
                   [] \<Rightarrow> False
                 | c # rest \<Rightarrow>
                     (let highest = fold max (map high rest) (high c);
                          lowest = fold min (map low rest) (low c);
                          range = highest - lowest;
                          avgPrice = (highest + lowest) / 2;
                          rangePercent = jsTimes (jsDivide range avgPrice) 100
                      in jsGreater rangePercent (5 / 10)))))"

datatype orderType = MARKET | LIMIT

record tradeSetup =
  setup_direction :: string
  orderType :: orderType
  entry :: real
  stopLoss :: real
  takeProfit :: real
  riskReward :: real
  stopLossPercent :: jsnum

text \<open>
  The four numbers a branch of \<^verbatim>\<open>calculateTradeSetup\<close> fixes: entry, stop loss, take
  profit and the order type.
\<close>

definition buySetup :: "timeframeAnalysis option \<Rightarrow> real \<Rightarrow> real \<times> real \<times> real \<times> orderType" where
  "buySetup tf5M currentPrice =
     (let swingLows = (case tf5M of None \<Rightarrow> [] | Some a \<Rightarrow> below (liquidity a));
          lowestPoint = (if swingLows \<noteq> []
                         then fold min (map zone_price (drop (length swingLows - 3) swingLows))
                                (currentPrice * (985 / 1000))
                         else currentPrice * (985 / 1000));
          stopLoss = lowestPoint;
          liquidityAbove = (case tf5M of
                              None \<Rightarrow> None
                            | Some a \<Rightarrow> if above (liquidity a) = [] then None
                                        else Some (last (above (liquidity a))));
          takeProfit = (case liquidityAbove of
                          None \<Rightarrow> currentPrice * (103 / 100)
                        | Some z \<Rightarrow> zone_price z);
          nearbyOB = (case tf5M of
                        None \<Rightarrow> None
                      | Some a \<Rightarrow>
                          find (\<lambda>ob. ob_type ob = BULLISH_OB \<and> \<not> mitigated ob \<and>
                                     ob_high ob < currentPrice \<and> ob_high ob > stopLoss)
                               (orderBlocks a))
      in case nearbyOB of
           None \<Rightarrow> (currentPrice, stopLoss, takeProfit, MARKET)
         | Some ob \<Rightarrow> (ob_high ob, stopLoss, takeProfit, LIMIT))"

definition sellSetup :: "timeframeAnalysis option \<Rightarrow> real \<Rightarrow> real \<times> real \<times> real \<times> orderType" where
  "sellSetup tf5M currentPrice =
     (let swingHighs = (case tf5M of None \<Rightarrow> [] | Some a \<Rightarrow> above (liquidity a));
          highestPoint = (if swingHighs \<noteq> []
                          then fold max (map zone_price (drop (length swingHighs - 3) swingHighs))
                                 (currentPrice * (1015 / 1000))
                          else currentPrice * (1015 / 1000));
          stopLoss = highestPoint;
          liquidityBelow = (case tf5M of
                              None \<Rightarrow> None
                            | Some a \<Rightarrow> if below (liquidity a) = [] then None
                                        else Some (last (below (liquidity a))));
          takeProfit = (case liquidityBelow of
                          None \<Rightarrow> currentPrice * (97 / 100)
                        | Some z \<Rightarrow> zone_price z);
          nearbyOB = (case tf5M of
                        None \<Rightarrow> None
                      | Some a \<Rightarrow>
                          find (\<lambda>ob. ob_type ob = BEARISH_OB \<and> \<not> mitigated ob \<and>
                                     ob_low ob > currentPrice \<and> ob_low ob < stopLoss)
                               (orderBlocks a))
      in case nearbyOB of
           None \<Rightarrow> (currentPrice, stopLoss, takeProfit, MARKET)
         | Some ob \<Rightarrow> (ob_low ob, stopLoss, takeProfit, LIMIT))"

text \<open>
  \<^verbatim>\<open>calculateTradeSetup\<close> reads \<^verbatim>\<open>smartMoney.overallBias.direction\<close> and the last 5M
  candle without a guard: a missing bias or no 5M candle throws.
\<close>

definition calculateTradeSetup ::
  "smartMoneyAnalysis \<Rightarrow> (string \<rightharpoonup> candle list) \<Rightarrow> error + tradeSetup" where
  "calculateTradeSetup sm marketData =
     (case overallBias sm of
        None \<Rightarrow> Inl TypeError
      | Some bias \<Rightarrow>
          (case marketData ''5M'' of
             None \<Rightarrow> Inl TypeError
           | Some candles5M \<Rightarrow>
               (if candles5M = [] then Inl TypeError
                else
                  (let currentPrice = close (last candles5M);
                       tf5M = timeframes sm ''5M'';
                       (entry0, stop0, take0, kind) =
                          (if direction bias = ''BUY'' then buySetup tf5M currentPrice
                           else if direction bias = ''SELL'' then sellSetup tf5M currentPrice
                           else (currentPrice, currentPrice * (985 / 1000),
                                 currentPrice * (103 / 100), MARKET));
                       stop1 = (if stop0 = 0 then currentPrice * (985 / 1000) else stop0);
                       take1 = (if take0 = 0 then currentPrice * (103 / 100) else take0);
                       stopDistance = \<bar>entry0 - stop1\<bar>;
                       takeDistance = \<bar>take1 - entry0\<bar>;
                       rr = (if stopDistance > 0 then takeDistance / stopDistance else 0)
                   in Inr \<lparr>setup_direction = direction bias, orderType = kind,
                           entry = toFixed 5 entry0, stopLoss = toFixed 5 stop1,
                           takeProfit = toFixed 5 take1, riskReward = toFixed 2 rr,
                           stopLossPercent =
                             toFixedNum 2 (jsTimes (jsDivide stopDistance entry0) 100)\<rparr>))))"

definition validateStopLoss :: "decisionEngine \<Rightarrow> tradeSetup \<Rightarrow> bool" where
  "validateStopLoss eng tradeSetup =
     (if jsGreater (stopLossPercent tradeSetup) (maxStopLossPercent (thresholds eng)) then False
      else True)"

text \<open>
  A decision: \<^verbatim>\<open>TRADE_APPROVED\<close> with its direction, setup and criteria, or
  \<^verbatim>\<open>NO_TRADE\<close> with the names of the criteria that are \<^verbatim>\<open>false\<close>. The rejection of the
  mandatory gate is the one built from \<^verbatim>\<open>{ ...criteria, confluenceScore }\<close>.
\<close>

record approval =
  appr_direction :: string
  appr_setup :: tradeSetup
  appr_criteria :: criteria

record rejection =
  failedCriteria :: "string list"
  rej_criteria :: criteria
  rej_confluenceScore :: "nat option"

datatype decision = TRADE_APPROVED approval | NO_TRADE rejection

definition generateRejectionDecision :: "criteria \<Rightarrow> nat option \<Rightarrow> decision" where
  "generateRejectionDecision crit score =
     NO_TRADE \<lparr>failedCriteria = map fst (filter (\<lambda>(k, v). v = JFalse) crit),
               rej_criteria = crit, rej_confluenceScore = score\<rparr>"

text \<open>
  \<^verbatim>\<open>generateTradeSignal\<close> reads \<^verbatim>\<open>fundamental.fundamentalBias.confidence\<close> and, for the
  justification, \<^verbatim>\<open>technical.indicators.institutionalTrend.signal\<close> without a guard: an
  approval with no fundamental bias or with no indicators throws.
\<close>

definition generateTradeSignal ::
  "criteria \<Rightarrow> tradeSetup \<Rightarrow> technicalAnalysis \<Rightarrow> fundamentalAnalysis \<Rightarrow> error + decision" where
  "generateTradeSignal crit tradeSetup technical fundamental =
     (case fundamentalBias fundamental of
        None \<Rightarrow> Inl TypeError
      | Some fb \<Rightarrow>
          (if \<not> tech_indicators technical then Inl TypeError
           else Inr (TRADE_APPROVED \<lparr>appr_direction = setup_direction tradeSetup,
                                     appr_setup = tradeSetup, appr_criteria = crit\<rparr>)))"

definition initialCriteria ::
  "decisionEngine \<Rightarrow> smartMoneyAnalysis \<Rightarrow> technicalAnalysis \<Rightarrow> fundamentalAnalysis \<Rightarrow>
   correlationAnalysis \<Rightarrow> (string \<rightharpoonup> candle list) \<Rightarrow> nat \<Rightarrow> criteria" where
  "initialCriteria eng sm technical fundamental correlation marketData confluenceScore =
     [(''tf4H_1H_aligned'', jsBool (checkHigherTFAlignment sm)),
      (''tf15M_confirmation'', jsBool (check15MConfirmation sm)),
      (''tf5M_entry'', check5MEntry sm marketData),
      (''smartMoneyConfirms'', jsBool (checkSmartMoneyConfirmation sm)),
      (''confluenceOk'', jsBool (confluenceScore \<ge> minConfluence (thresholds eng))),
      (''mlProbabilityOk'',
         jsBool ((case tech_confidence technical of None \<Rightarrow> 0 | Some c \<Rightarrow> c)
                 \<ge> minMLProbability (thresholds eng))),
      (''fundamentalNotAgainst'', jsBool (checkFundamentalAlignment sm fundamental)),
      (''notRanging'', jsBool (checkNotRanging marketData)),
      (''correlationAligned'', jsBool (allowTrade correlation)),
      (''stopLossValid'', JTrue),
      (''riskRewardOk'', JFalse)]"

definition criterion :: "criteria \<Rightarrow> string \<Rightarrow> jsval" where
  \<comment> \<open>\<^verbatim>\<open>criteria.name\<close>\<close>
  "criterion crit name = (case map_of crit name of None \<Rightarrow> JUndefined | Some v \<Rightarrow> v)"

definition setCriterion :: "criteria \<Rightarrow> string \<Rightarrow> jsval \<Rightarrow> criteria" where
  \<comment> \<open>\<^verbatim>\<open>criteria.name = v\<close> on a key the object has: the key keeps its place\<close>
  "setCriterion crit name v = map (\<lambda>(k, old). if k = name then (k, v) else (k, old)) crit"

definition mandatoryChecks :: "criteria \<Rightarrow> jsval list" where
  "mandatoryChecks crit =
     [criterion crit ''confluenceOk'', criterion crit ''mlProbabilityOk'',
      criterion crit ''smartMoneyConfirms'', criterion crit ''notRanging'']"

definition countTrue :: "jsval list \<Rightarrow> nat" where
  \<comment> \<open>\<^verbatim>\<open>.filter(c => c === true).length\<close>\<close>
  "countTrue vs = length (filter (\<lambda>v. v = JTrue) vs)"

definition processDecision ::
  "decisionEngine \<Rightarrow> smartMoneyAnalysis \<Rightarrow> technicalAnalysis \<Rightarrow> fundamentalAnalysis \<Rightarrow>
   correlationAnalysis \<Rightarrow> (string \<rightharpoonup> candle list) \<Rightarrow> error + decision" where
  "processDecision eng sm technical fundamental correlation marketData =
     (if consecutiveLosses eng \<ge> maxConsecutiveLosses eng
      then Inr (generateRejectionDecision [] None)
      else
        (let confluenceScore = calculateConfluence sm technical marketData;
             crit = initialCriteria eng sm technical fundamental correlation marketData
                      confluenceScore;
             passedMandatoryCount = countTrue (mandatoryChecks crit)
         in if passedMandatoryCount < 2
            then Inr (generateRejectionDecision crit (Some confluenceScore))
            else
              (case calculateTradeSetup sm marketData of
                 Inl e \<Rightarrow> Inl e
               | Inr tradeSetup \<Rightarrow>
                   (let crit1 = setCriterion crit ''stopLossValid''
                                  (jsBool (validateStopLoss eng tradeSetup));
                        crit2 = setCriterion crit1 ''riskRewardOk''
                                  (jsBool (riskReward tradeSetup \<ge> minRiskReward (thresholds eng)));
                        finalCriteriaValues = map snd crit2;
                        finalMetCount = countTrue finalCriteriaValues;
                        finalMetPercentage =
                          (real finalMetCount / real (length finalCriteriaValues)) * 100
                    in if finalMetPercentage < 50
                       then Inr (generateRejectionDecision crit2 None)
                       else generateTradeSignal crit2 tradeSetup technical fundamental))))"

section \<open>Auxiliary definitions for the properties\<close>

subsection \<open>Invariant of the weight state\<close>







subsection \<open>Concrete inputs\<close>

definition breakevenTrade :: trade where
  "breakevenTrade = \<lparr>result = BREAKEVEN, timeframe = Some ''5M'',
                      smartMoneyPatterns = [''BULLISH_OB''], mlProbability = 0\<rparr>"




definition ohlc :: "real \<Rightarrow> real \<Rightarrow> real \<Rightarrow> real \<Rightarrow> candle" where
  \<comment> \<open>a candle from its open, high, low and close\<close>
  "ohlc o' h l c = \<lparr>timestamp = 0, opn = o', high = h, low = l, close = c, volume = 1000\<rparr>"

definition analysisOf :: "trend \<Rightarrow> timeframeAnalysis" where
  \<comment> \<open>an analysis with the given trend and no structure\<close>
  "analysisOf t = \<lparr>trend = t, liquidity = \<lparr>above = [], below = [], sweeps = []\<rparr>,
                   orderBlocks = [], institutionalLevel = None, fairValueGaps = None,
                   breakOfStructure = False\<rparr>"

definition bullishTimeframes :: "string \<rightharpoonup> timeframeAnalysis" where
  "bullishTimeframes = [''4H'' \<mapsto> analysisOf BULLISH, ''1H'' \<mapsto> analysisOf BULLISH]"

definition mixedTimeframes :: "string \<rightharpoonup> timeframeAnalysis" where
  "mixedTimeframes = [''4H'' \<mapsto> analysisOf BULLISH, ''1H'' \<mapsto> analysisOf NEUTRAL]"

definition strongSell :: fundamentalAnalysis where
  \<comment> \<open>a fundamental bias against buying, with confidence above 70\<close>
  "strongSell = \<lparr>fundamentalBias = Some \<lparr>fund_direction = Some ''SELL'', fund_confidence = 90\<rparr>\<rparr>"

text \<open>
  Candles for the order-block scan: a down candle at index 2, a strong up candle after it
  whose low comes back into the block. In \<open>glitchCandles\<close> the last candle closes below
  its own low, which is what a mitigation of a bullish block needs.
\<close>

definition retestCandles :: "candle list" where
  "retestCandles = [ohlc 100 100 100 100, ohlc 100 100 100 100, ohlc 100 101 98 99,
                    ohlc 99 102 99 101, ohlc 101 101 101 101]"

definition glitchCandles :: "candle list" where
  "glitchCandles = [ohlc 100 100 100 100, ohlc 100 100 100 100, ohlc 100 101 98 99,
                    ohlc 99 102 99 101, ohlc 101 101 (197 / 2) 97]"

definition gapCandles :: "candle list" where
  "gapCandles = [ohlc 9 10 9 10, ohlc 10 11 10 11, ohlc 12 13 12 13, ohlc 13 13 (21 / 2) 12]"

subsection \<open>The mandatory checks, as the specification lists them\<close>

definition mandatoryNames :: "string list" where
  "mandatoryNames =
     [''confluenceOk'', ''mlProbabilityOk'', ''smartMoneyConfirms'', ''notRanging'']"

definition mandatoryValues ::
  "decisionEngine \<Rightarrow> smartMoneyAnalysis \<Rightarrow> technicalAnalysis \<Rightarrow> (string \<rightharpoonup> candle list) \<Rightarrow>
   bool list" where
  "mandatoryValues eng sm technical marketData =
     [calculateConfluence sm technical marketData \<ge> minConfluence (thresholds eng),
      (case tech_confidence technical of None \<Rightarrow> 0 | Some c \<Rightarrow> c)
        \<ge> minMLProbability (thresholds eng),
      checkSmartMoneyConfirmation sm,
      checkNotRanging marketData]"

definition passedCount :: "bool list \<Rightarrow> nat" where
  "passedCount bs = length (filter (\<lambda>b. b) bs)"

subsection \<open>Inputs of the decision engine\<close>

definition activeOrderBlock :: orderBlock where
  "activeOrderBlock = \<lparr>ob_type = BULLISH_OB, ob_index = 2, ob_high = 101, ob_low = 98,
     ob_open = 100, ob_close = 99, ob_strength = Finite 2, mitigated = False, tested = True\<rparr>"

definition conflictedTimeframes :: "string \<rightharpoonup> timeframeAnalysis" where
  "conflictedTimeframes =
     [''4H'' \<mapsto> analysisOf BULLISH, ''1H'' \<mapsto> analysisOf BEARISH,
      ''15M'' \<mapsto> analysisOf NEUTRAL,
      ''5M'' \<mapsto> (analysisOf NEUTRAL)\<lparr>orderBlocks := [activeOrderBlock]\<rparr>]"

definition neutralTimeframes :: "string \<rightharpoonup> timeframeAnalysis" where
  "neutralTimeframes = [''4H'' \<mapsto> analysisOf NEUTRAL, ''1H'' \<mapsto> analysisOf NEUTRAL]"

definition unconfirmedTimeframes :: "string \<rightharpoonup> timeframeAnalysis" where
  "unconfirmedTimeframes =
     [''4H'' \<mapsto> analysisOf NEUTRAL, ''1H'' \<mapsto> analysisOf NEUTRAL,
      ''15M'' \<mapsto> analysisOf BULLISH, ''5M'' \<mapsto> analysisOf NEUTRAL]"

definition trendingMarket :: "string \<rightharpoonup> candle list" where
  \<comment> \<open>the last twenty 4H candles span 100 to 110\<close>
  "trendingMarket =
     [''4H'' \<mapsto> replicate 19 (ohlc 100 100 100 100) @ [ohlc 100 110 100 110],
      ''1H'' \<mapsto> [ohlc 100 100 100 100],
      ''15M'' \<mapsto> [ohlc 100 100 100 100],
      ''5M'' \<mapsto> [ohlc 100 100 100 100]]"

definition rangingMarket :: "string \<rightharpoonup> candle list" where
  \<comment> \<open>twenty 4H candles that do not move\<close>
  "rangingMarket = [''4H'' \<mapsto> replicate 20 (ohlc 100 100 100 100),
                    ''1H'' \<mapsto> [ohlc 100 100 100 100]]"

definition confidentTechnical :: technicalAnalysis where
  "confidentTechnical = \<lparr>tech_confidence = Some 80, tech_indicators = True\<rparr>"

definition modestTechnical :: technicalAnalysis where
  "modestTechnical = \<lparr>tech_confidence = Some 60, tech_indicators = True\<rparr>"

definition silentTechnical :: technicalAnalysis where
  "silentTechnical = \<lparr>tech_confidence = None, tech_indicators = True\<rparr>"

definition neutralFundamental :: fundamentalAnalysis where
  "neutralFundamental =
     \<lparr>fundamentalBias = Some \<lparr>fund_direction = Some ''NEUTRAL'', fund_confidence = 50\<rparr>\<rparr>"

section \<open>Properties of the adaptive weight learner\<close>

lemma learnFromTrade_open: "result t = OPEN \<Longrightarrow> learnFromTrade s t = (None, s)"
  by (simp add: learnFromTrade_def)

text \<open>
  C1. The claim: learning is a no-op while the trade is open, the reward is +1 on a win
  and -1 on a loss, and a BREAKEVEN trade changes no weight. The source computes
  \<^verbatim>\<open>reward = isWin ? 1 : -1\<close>, so a BREAKEVEN trade is penalised exactly like a LOSS:
  on the default weights, the breakeven trade below lowers the weight of its timeframe
  and of its pattern from 1 to 0.95, without an exception, and leaves the very state a
  LOSS leaves.
\<close>

theorem learnFromTrade_breakeven_penalised:
  "timeframeWeights defaultWeights ''5M'' = Some (Finite 1) \<and>
   timeframeWeights (snd (learnFromTrade defaultWeights breakevenTrade)) ''5M''
     = Some (Finite (95 / 100)) \<and>
   patternWeights defaultWeights ''BULLISH_OB'' = Some (Finite 1) \<and>
   patternWeights (snd (learnFromTrade defaultWeights breakevenTrade)) ''BULLISH_OB''
     = Some (Finite (95 / 100)) \<and>
   fst (learnFromTrade defaultWeights breakevenTrade) = None \<and>
   learnFromTrade defaultWeights breakevenTrade
     = learnFromTrade defaultWeights (breakevenTrade\<lparr>result := LOSS\<rparr>)"
  by (simp add: learnFromTrade_def adjustTimeframe_def adjustPattern_def adjustModels_def
      getProperty_def setProperty_def defaultWeights_def breakevenTrade_def clampTo_def Let_def)

subsection \<open>The timeframe and pattern tables stay within bounds\<close>















subsection \<open>The model weights stay balanced\<close>










subsection \<open>The invariant holds after every update\<close>











section \<open>Properties of the structure detector\<close>

text \<open>
  C4. The claim: index \<open>i\<close> is a swing high iff its high strictly exceeds every other high
  in the window from \<open>i - lookback\<close> to \<open>i + lookback\<close>, both ends included. The loop of
  \<^verbatim>\<open>isSwingHigh\<close> stops at \<^verbatim>\<open>i < index + lookback\<close> and never reads the candle at
  \<open>index + lookback\<close>: with lookback 1 and highs 1, 2, 3 the code reports index 1 as a
  swing high although the candle at index 2, inside the window, is higher.
\<close>

theorem identifySwingPoints_skips_last_of_window:
  "identifySwingPoints [ohlc (1 / 2) 1 (1 / 2) 1, ohlc (3 / 2) 2 (3 / 2) 2, ohlc (5 / 2) 3 (5 / 2) 3] 1
     = Inr \<lparr>highs = [\<lparr>sp_index = 1, sp_price = 2\<rparr>], lows = []\<rparr>"
  by (simp add: identifySwingPoints_def isSwingHigh_def isSwingLow_def candleAt_def
      ohlc_def upto.simps)

text \<open>
  C5. On fewer than \<open>2 * lookback + 1\<close> candles \<^verbatim>\<open>identifySwingPoints\<close> returns normally
  with no swing high and no swing low.
\<close>

theorem identifySwingPoints_short:
  "int (length candles) < 2 * lookback + 1 \<Longrightarrow>
   identifySwingPoints candles lookback = Inr \<lparr>highs = [], lows = []\<rparr>"
  by (simp add: identifySwingPoints_def)

theorem identifySwingPoints_short_witness:
  "int (length [ohlc 0 1 0 1, ohlc 1 2 1 2]) < 2 * 1 + 1 \<and>
   identifySwingPoints [ohlc 0 1 0 1, ohlc 1 2 1 2] 1 = Inr \<lparr>highs = [], lows = []\<rparr>"
  using identifySwingPoints_short [of "[ohlc 0 1 0 1, ohlc 1 2 1 2]" 1] by simp

subsection \<open>Mitigation and fill flags on a longer window\<close>

lemma mitigationLoop_static:
  "ob_type (mitigationLoop ob cs) = ob_type ob \<and> ob_index (mitigationLoop ob cs) = ob_index ob \<and>
   ob_high (mitigationLoop ob cs) = ob_high ob \<and> ob_low (mitigationLoop ob cs) = ob_low ob \<and>
   ob_open (mitigationLoop ob cs) = ob_open ob \<and> ob_close (mitigationLoop ob cs) = ob_close ob \<and>
   ob_strength (mitigationLoop ob cs) = ob_strength ob \<and>
   (mitigated ob \<longrightarrow> mitigated (mitigationLoop ob cs)) \<and>
   (tested ob \<longrightarrow> tested (mitigationLoop ob cs))"
  by (induction ob cs rule: mitigationLoop.induct) (auto split: obType.splits)

lemma obFlagsKept_refl: "obFlagsKept a a"
  by (simp add: obFlagsKept_def)

lemma mitigationLoop_kept: "obFlagsKept ob (mitigationLoop ob cs)"
  using mitigationLoop_static [of ob cs] by (simp add: obFlagsKept_def)

lemma mitigationLoop_append:
  "obFlagsKept (mitigationLoop ob cs) (mitigationLoop ob (cs @ ext))"
proof (induction ob cs rule: mitigationLoop.induct)
  case (1 ob)
  then show ?case using mitigationLoop_kept by simp
next
  case (2 ob candle rest)
  then show ?case
    by (cases "ob_type ob") (auto simp: obFlagsKept_refl)
qed

lemma orderBlocksAt_append:
  "i + 1 < length cs \<Longrightarrow> orderBlocksAt (cs @ ext) i = orderBlocksAt cs i"
  by (simp add: orderBlocksAt_def nth_append)

lemma orderBlocksAt_index: "ob \<in> set (orderBlocksAt cs i) \<Longrightarrow> ob_index ob = i"
  by (auto simp: orderBlocksAt_def Let_def split: if_splits)

lemma orderBlockCandidates_index:
  "ob \<in> set (orderBlockCandidates cs) \<Longrightarrow> ob_index ob + 1 < length cs"
  by (auto simp: orderBlockCandidates_def dest!: orderBlocksAt_index)

lemma orderBlockCandidates_append:
  "\<exists>more. orderBlockCandidates (cs @ ext) = orderBlockCandidates cs @ more"
proof -
  let ?n = "length cs - 1"
  let ?m = "length (cs @ ext) - 1"
  have le: "?n \<le> ?m" by simp
  have split: "[2 ..< ?m] = [2 ..< ?n] @ [max 2 ?n ..< ?m]"
  proof (cases "2 \<le> ?n")
    case True
    then show ?thesis using le upt_add_eq_append [of 2 ?n "?m - ?n"] by (simp add: max_def)
  next
    case False
    then show ?thesis by (simp add: max_def)
  qed
  have same: "map (orderBlocksAt (cs @ ext)) [2 ..< ?n] = map (orderBlocksAt cs) [2 ..< ?n]"
    by (rule map_cong) (auto simp: orderBlocksAt_append)
  have "orderBlockCandidates (cs @ ext) =
        orderBlockCandidates cs @ concat (map (orderBlocksAt (cs @ ext)) [max 2 ?n ..< ?m])"
    unfolding orderBlockCandidates_def split map_append concat_append same ..
  then show ?thesis by blast
qed

lemma detectOrderBlocks_monotone:
  "list_all2 obFlagsKept (detectOrderBlocks cs)
     (take (length (detectOrderBlocks cs)) (detectOrderBlocks (cs @ ext)))"
proof -
  obtain more where more: "orderBlockCandidates (cs @ ext) = orderBlockCandidates cs @ more"
    using orderBlockCandidates_append by blast
  have len: "length (detectOrderBlocks cs) = length (orderBlockCandidates cs)"
    by (simp add: detectOrderBlocks_def checkOrderBlockMitigation_def)
  have tk: "take (length (detectOrderBlocks cs)) (detectOrderBlocks (cs @ ext))
        = map (\<lambda>ob. mitigationLoop ob (drop (ob_index ob + 1) (cs @ ext))) (orderBlockCandidates cs)"
    unfolding len by (simp add: detectOrderBlocks_def checkOrderBlockMitigation_def more)
  have "obFlagsKept (mitigationLoop ob (drop (ob_index ob + 1) cs))
          (mitigationLoop ob (drop (ob_index ob + 1) (cs @ ext)))"
    if "ob \<in> set (orderBlockCandidates cs)" for ob
  proof -
    have "ob_index ob + 1 \<le> length cs" using orderBlockCandidates_index [OF that] by simp
    then have "drop (ob_index ob + 1) (cs @ ext) = drop (ob_index ob + 1) cs @ ext" by simp
    then show ?thesis using mitigationLoop_append by simp
  qed
  then show ?thesis
    unfolding tk by (simp add: detectOrderBlocks_def checkOrderBlockMitigation_def
        list_all2_map1 list_all2_map2 list_all2_same)
qed


lemma fillLoop_static:
  "fvg_type (fillLoop g m cs) = fvg_type g \<and> fvg_index (fillLoop g m cs) = fvg_index g \<and>
   fvg_top (fillLoop g m cs) = fvg_top g \<and> fvg_bottom (fillLoop g m cs) = fvg_bottom g \<and>
   fvg_size (fillLoop g m cs) = fvg_size g \<and>
   (filled g \<longrightarrow> filled (fillLoop g m cs)) \<and>
   (partiallyFilled g \<longrightarrow> partiallyFilled (fillLoop g m cs))"
  by (induction g m cs rule: fillLoop.induct) (auto split: fvgType.splits)

lemma fvgFlagsKept_refl: "fvgFlagsKept a a"
  by (simp add: fvgFlagsKept_def)

lemma fillLoop_kept: "fvgFlagsKept g (fillLoop g m cs)"
  using fillLoop_static [of g m cs] by (simp add: fvgFlagsKept_def)

lemma fillLoop_append:
  "fvgFlagsKept (fillLoop g m cs) (fillLoop g m (cs @ ext))"
proof (induction g m cs rule: fillLoop.induct)
  case (1 fvg midPoint)
  then show ?case using fillLoop_kept by simp
next
  case (2 fvg midPoint candle rest)
  then show ?case
    by (cases "fvg_type fvg") (auto simp: fvgFlagsKept_refl)
qed

lemma fairValueGapsAt_append:
  "i < length cs \<Longrightarrow> fairValueGapsAt (cs @ ext) i = fairValueGapsAt cs i"
  by (simp add: fairValueGapsAt_def nth_append less_imp_diff_less)

lemma fairValueGapsAt_index: "g \<in> set (fairValueGapsAt cs i) \<Longrightarrow> fvg_index g = i - 1"
  by (auto simp: fairValueGapsAt_def Let_def split: if_splits)

lemma fairValueGapCandidates_index:
  "g \<in> set (fairValueGapCandidates cs) \<Longrightarrow> fvg_index g + 1 < length cs"
  by (auto simp: fairValueGapCandidates_def dest!: fairValueGapsAt_index)

lemma fairValueGapCandidates_append:
  "\<exists>more. fairValueGapCandidates (cs @ ext) = fairValueGapCandidates cs @ more"
proof -
  let ?n = "length cs"
  let ?m = "length (cs @ ext)"
  have le: "?n \<le> ?m" by simp
  have split: "[2 ..< ?m] = [2 ..< ?n] @ [max 2 ?n ..< ?m]"
  proof (cases "2 \<le> ?n")
    case True
    then show ?thesis using le upt_add_eq_append [of 2 ?n "?m - ?n"] by (simp add: max_def)
  next
    case False
    then show ?thesis by (simp add: max_def)
  qed
  have same: "map (fairValueGapsAt (cs @ ext)) [2 ..< ?n] = map (fairValueGapsAt cs) [2 ..< ?n]"
    by (rule map_cong) (auto simp: fairValueGapsAt_append)
  have "fairValueGapCandidates (cs @ ext) =
        fairValueGapCandidates cs @ concat (map (fairValueGapsAt (cs @ ext)) [max 2 ?n ..< ?m])"
    unfolding fairValueGapCandidates_def split map_append concat_append same ..
  then show ?thesis by blast
qed

lemma detectFairValueGaps_monotone:
  "list_all2 fvgFlagsKept (detectFairValueGaps cs)
     (take (length (detectFairValueGaps cs)) (detectFairValueGaps (cs @ ext)))"
proof -
  obtain more where more: "fairValueGapCandidates (cs @ ext) = fairValueGapCandidates cs @ more"
    using fairValueGapCandidates_append by blast
  have len: "length (detectFairValueGaps cs) = length (fairValueGapCandidates cs)"
    by (simp add: detectFairValueGaps_def checkFVGFill_def)
  have tk: "take (length (detectFairValueGaps cs)) (detectFairValueGaps (cs @ ext))
        = map (\<lambda>g. fillLoop g ((fvg_top g + fvg_bottom g) / 2) (drop (fvg_index g + 1) (cs @ ext)))
            (fairValueGapCandidates cs)"
    unfolding len by (simp add: detectFairValueGaps_def checkFVGFill_def more)
  have "fvgFlagsKept (fillLoop g m (drop (fvg_index g + 1) cs))
          (fillLoop g m (drop (fvg_index g + 1) (cs @ ext)))"
    if "g \<in> set (fairValueGapCandidates cs)" for g m
  proof -
    have "fvg_index g + 1 \<le> length cs" using fairValueGapCandidates_index [OF that] by simp
    then have "drop (fvg_index g + 1) (cs @ ext) = drop (fvg_index g + 1) cs @ ext" by simp
    then show ?thesis using fillLoop_append by simp
  qed
  then show ?thesis
    unfolding tk by (simp add: detectFairValueGaps_def checkFVGFill_def
        list_all2_map1 list_all2_map2 list_all2_same)
qed

text \<open>
  C9. Scanning a candle window extended by further candles finds every order block and
  every fair value gap of the shorter window again, at the same place in the result and
  with the same data, and a flag (\<^verbatim>\<open>mitigated\<close>, \<^verbatim>\<open>tested\<close>, \<^verbatim>\<open>filled\<close>,
  \<^verbatim>\<open>partiallyFilled\<close>) that is set on the shorter window is set on the longer one.
\<close>

theorem structure_flags_monotone:
  "list_all2 obFlagsKept (detectOrderBlocks cs)
     (take (length (detectOrderBlocks cs)) (detectOrderBlocks (cs @ ext))) \<and>
   list_all2 fvgFlagsKept (detectFairValueGaps cs)
     (take (length (detectFairValueGaps cs)) (detectFairValueGaps (cs @ ext)))"
  using detectOrderBlocks_monotone detectFairValueGaps_monotone by blast

lemma retest_detected:
  "detectOrderBlocks retestCandles =
     [\<lparr>ob_type = BULLISH_OB, ob_index = 2, ob_high = 101, ob_low = 98, ob_open = 100,
       ob_close = 99, ob_strength = Finite 2, mitigated = False, tested = True\<rparr>]"
  "detectOrderBlocks (retestCandles @ [ohlc 101 101 101 101]) =
     [\<lparr>ob_type = BULLISH_OB, ob_index = 2, ob_high = 101, ob_low = 98, ob_open = 100,
       ob_close = 99, ob_strength = Finite 2, mitigated = False, tested = True\<rparr>]"
  by code_simp+

lemma glitch_detected:
  "detectOrderBlocks glitchCandles =
     [\<lparr>ob_type = BULLISH_OB, ob_index = 2, ob_high = 101, ob_low = 98, ob_open = 100,
       ob_close = 99, ob_strength = Finite 2, mitigated = True, tested = True\<rparr>,
      \<lparr>ob_type = BEARISH_OB, ob_index = 3, ob_high = 102, ob_low = 99, ob_open = 99,
       ob_close = 101, ob_strength = Finite 4, mitigated = False, tested = True\<rparr>]"
  "detectOrderBlocks (glitchCandles @ [ohlc 97 97 97 97]) =
     [\<lparr>ob_type = BULLISH_OB, ob_index = 2, ob_high = 101, ob_low = 98, ob_open = 100,
       ob_close = 99, ob_strength = Finite 2, mitigated = True, tested = True\<rparr>,
      \<lparr>ob_type = BEARISH_OB, ob_index = 3, ob_high = 102, ob_low = 99, ob_open = 99,
       ob_close = 101, ob_strength = Finite 4, mitigated = False, tested = True\<rparr>]"
  by code_simp+

lemma gap_detected:
  "detectFairValueGaps gapCandles =
     [\<lparr>fvg_type = BULLISH_FVG, fvg_index = 1, fvg_top = 12, fvg_bottom = 10, fvg_size = 2,
       filled = True, partiallyFilled = True\<rparr>]"
  "detectFairValueGaps (gapCandles @ [ohlc 12 12 12 12]) =
     [\<lparr>fvg_type = BULLISH_FVG, fvg_index = 1, fvg_top = 12, fvg_bottom = 10, fvg_size = 2,
       filled = True, partiallyFilled = True\<rparr>]"
  by code_simp+

theorem structure_flags_monotone_witness:
  "tested (detectOrderBlocks retestCandles ! 0) \<and>
   tested (detectOrderBlocks (retestCandles @ [ohlc 101 101 101 101]) ! 0) \<and>
   mitigated (detectOrderBlocks glitchCandles ! 0) \<and>
   mitigated (detectOrderBlocks (glitchCandles @ [ohlc 97 97 97 97]) ! 0) \<and>
   filled (detectFairValueGaps gapCandles ! 0) \<and>
   partiallyFilled (detectFairValueGaps gapCandles ! 0) \<and>
   filled (detectFairValueGaps (gapCandles @ [ohlc 12 12 12 12]) ! 0) \<and>
   partiallyFilled (detectFairValueGaps (gapCandles @ [ohlc 12 12 12 12]) ! 0)"
  using structure_flags_monotone [of retestCandles "[ohlc 101 101 101 101]"]
    structure_flags_monotone [of glitchCandles "[ohlc 97 97 97 97]"]
    structure_flags_monotone [of gapCandles "[ohlc 12 12 12 12]"]
    retest_detected glitch_detected gap_detected
  by simp

section \<open>Properties of the aggregator\<close>

text \<open>
  C6, as claimed: when exactly one of the two trends is NEUTRAL the bias is the other
  side with confidence 75, whichever of the two is neutral. The source gives 4H more
  weight: a neutral 4H with a bullish 1H is NEUTRAL with confidence 50.
\<close>

theorem determineOverallBias_neutral_4H_counterexample:
  "determineOverallBias (Some (analysisOf NEUTRAL)) (Some (analysisOf BULLISH))
     = Some \<lparr>direction = ''NEUTRAL'', confidence = 50\<rparr> \<and>
   determineOverallBias (Some (analysisOf NEUTRAL)) (Some (analysisOf BULLISH))
     \<noteq> Some \<lparr>direction = ''BULLISH'', confidence = 75\<rparr>"
  by (simp add: determineOverallBias_def analysisOf_def)

text \<open>
  C6, amended: equal non-neutral trends give that trend with confidence 95; a non-neutral
  4H with a neutral 1H gives the 4H trend with confidence 75; a neutral 4H with a
  non-neutral 1H gives NEUTRAL with confidence 50; two different non-neutral trends give
  CONFLICTED with confidence 30; two neutral trends give NEUTRAL with confidence 50.
\<close>

theorem determineOverallBias_cases:
  "(trend a4H = trend a1H \<and> trend a4H \<noteq> NEUTRAL \<longrightarrow>
      determineOverallBias (Some a4H) (Some a1H)
        = Some \<lparr>direction = trendName (trend a4H), confidence = 95\<rparr>) \<and>
   (trend a4H \<noteq> NEUTRAL \<and> trend a1H = NEUTRAL \<longrightarrow>
      determineOverallBias (Some a4H) (Some a1H)
        = Some \<lparr>direction = trendName (trend a4H), confidence = 75\<rparr>) \<and>
   (trend a4H = NEUTRAL \<and> trend a1H \<noteq> NEUTRAL \<longrightarrow>
      determineOverallBias (Some a4H) (Some a1H)
        = Some \<lparr>direction = ''NEUTRAL'', confidence = 50\<rparr>) \<and>
   (trend a4H \<noteq> NEUTRAL \<and> trend a1H \<noteq> NEUTRAL \<and> trend a4H \<noteq> trend a1H \<longrightarrow>
      determineOverallBias (Some a4H) (Some a1H)
        = Some \<lparr>direction = ''CONFLICTED'', confidence = 30\<rparr>) \<and>
   (trend a4H = NEUTRAL \<and> trend a1H = NEUTRAL \<longrightarrow>
      determineOverallBias (Some a4H) (Some a1H)
        = Some \<lparr>direction = ''NEUTRAL'', confidence = 50\<rparr>)"
  by (simp add: determineOverallBias_def Let_def)

theorem determineOverallBias_cases_witness:
  "determineOverallBias (Some (analysisOf BULLISH)) (Some (analysisOf BULLISH))
     = Some \<lparr>direction = ''BULLISH'', confidence = 95\<rparr> \<and>
   determineOverallBias (Some (analysisOf BEARISH)) (Some (analysisOf NEUTRAL))
     = Some \<lparr>direction = ''BEARISH'', confidence = 75\<rparr> \<and>
   determineOverallBias (Some (analysisOf NEUTRAL)) (Some (analysisOf BEARISH))
     = Some \<lparr>direction = ''NEUTRAL'', confidence = 50\<rparr> \<and>
   determineOverallBias (Some (analysisOf BULLISH)) (Some (analysisOf BEARISH))
     = Some \<lparr>direction = ''CONFLICTED'', confidence = 30\<rparr> \<and>
   determineOverallBias (Some (analysisOf NEUTRAL)) (Some (analysisOf NEUTRAL))
     = Some \<lparr>direction = ''NEUTRAL'', confidence = 50\<rparr>"
  using determineOverallBias_cases [of "analysisOf BULLISH" "analysisOf BULLISH"]
    determineOverallBias_cases [of "analysisOf BEARISH" "analysisOf NEUTRAL"]
    determineOverallBias_cases [of "analysisOf NEUTRAL" "analysisOf BEARISH"]
    determineOverallBias_cases [of "analysisOf BULLISH" "analysisOf BEARISH"]
    determineOverallBias_cases [of "analysisOf NEUTRAL" "analysisOf NEUTRAL"]
  by (simp add: analysisOf_def)

lemma in_collectTrends:
  "t \<in> set (collectTrends tfs) \<longleftrightarrow>
   (\<exists>tf \<in> set engineTimeframes. \<exists>a. tfs tf = Some a \<and> trend a = t)"
  unfolding collectTrends_def by (auto split: option.splits) metis+

lemma filter_count_less:
  "\<not> list_all P xs \<Longrightarrow> length (filter P xs) < length xs"
  by (induction xs) (auto simp: less_Suc_eq_le)

lemma majority_confidence:
  assumes "\<not> list_all P xs"
  shows "0 \<le> real (length (filter P xs)) / real (length xs) * 100"
    and "real (length (filter P xs)) / real (length xs) * 100 < 100"
proof -
  have lt: "length (filter P xs) < length xs" using assms by (rule filter_count_less)
  then have pos: "0 < real (length xs)" by (cases xs) auto
  show "0 \<le> real (length (filter P xs)) / real (length xs) * 100" by simp
  show "real (length (filter P xs)) / real (length xs) * 100 < 100"
    using lt pos by (simp add: divide_less_eq)
qed

lemma checkAlignment_confidence:
  "0 \<le> align_confidence (checkAlignment tfs) \<and> align_confidence (checkAlignment tfs) \<le> 100 \<and>
   (align_confidence (checkAlignment tfs) = 100 \<longleftrightarrow>
      list_all (\<lambda>t. t = BULLISH) (collectTrends tfs) \<or>
      list_all (\<lambda>t. t = BEARISH) (collectTrends tfs))"
  using majority_confidence [of "\<lambda>t. t = BULLISH" "collectTrends tfs"]
    majority_confidence [of "\<lambda>t. t = BEARISH" "collectTrends tfs"]
  by (auto simp: checkAlignment_def Let_def)

text \<open>
  C7. The confidence of \<^verbatim>\<open>checkAlignment\<close> lies in [0, 100], and it is 100 exactly when
  all the analysed timeframes are BULLISH or all are BEARISH (which no analysed timeframe
  at all satisfies too).
\<close>

theorem checkAlignment_confidence_range:
  "0 \<le> align_confidence (checkAlignment tfs) \<and> align_confidence (checkAlignment tfs) \<le> 100 \<and>
   (align_confidence (checkAlignment tfs) = 100 \<longleftrightarrow>
      (\<forall>tf \<in> set engineTimeframes. \<forall>a. tfs tf = Some a \<longrightarrow> trend a = BULLISH) \<or>
      (\<forall>tf \<in> set engineTimeframes. \<forall>a. tfs tf = Some a \<longrightarrow> trend a = BEARISH))"
proof -
  have "list_all (\<lambda>t. t = d) (collectTrends tfs) \<longleftrightarrow>
        (\<forall>tf \<in> set engineTimeframes. \<forall>a. tfs tf = Some a \<longrightarrow> trend a = d)" for d
    unfolding list_all_iff Ball_def in_collectTrends by blast
  then show ?thesis using checkAlignment_confidence [of tfs] by simp
qed

theorem checkAlignment_confidence_range_witness:
  "collectTrends bullishTimeframes = [BULLISH, BULLISH] \<and>
   align_confidence (checkAlignment bullishTimeframes) = 100 \<and>
   collectTrends mixedTimeframes = [BULLISH, NEUTRAL] \<and>
   align_confidence (checkAlignment mixedTimeframes) = 50"
  using checkAlignment_confidence_range [of bullishTimeframes]
    checkAlignment_confidence_range [of mixedTimeframes]
  by (simp add: checkAlignment_def collectTrends_def engineTimeframes_def bullishTimeframes_def
      mixedTimeframes_def analysisOf_def)

section \<open>Properties of the decision engine\<close>

lemma determineOverallBias_directions:
  "determineOverallBias tf4H tf1H = Some bias \<Longrightarrow>
   direction bias \<in> {''BULLISH'', ''BEARISH'', ''NEUTRAL'', ''CONFLICTED''}"
  by (cases tf4H; cases tf1H; cases "trend (the tf4H)"; cases "trend (the tf1H)")
     (auto simp: determineOverallBias_def Let_def split: if_splits)

lemma fundamental_never_blocks:
  assumes "\<forall>bias. overallBias sm = Some bias \<longrightarrow>
             direction bias \<noteq> ''BUY'' \<and> direction bias \<noteq> ''SELL''"
  shows "checkFundamentalAlignment sm fundamental"
  using assms by (auto simp: checkFundamentalAlignment_def Let_def split: option.splits)

text \<open>
  C10. Whenever the overall bias is one that \<^verbatim>\<open>determineOverallBias\<close> returns (no bias,
  or a direction among BULLISH, BEARISH, NEUTRAL and CONFLICTED),
  \<^verbatim>\<open>checkFundamentalAlignment\<close> is true whatever the fundamental bias says: its blocking
  branch compares the direction with \<^verbatim>\<open>'BUY'\<close> and \<^verbatim>\<open>'SELL'\<close>.
\<close>

theorem checkFundamentalAlignment_always_true:
  "(overallBias sm = determineOverallBias tf4H tf1H \<longrightarrow>
      checkFundamentalAlignment sm fundamental) \<and>
   ((\<exists>bias. overallBias sm = Some bias \<and>
        direction bias \<in> {''BULLISH'', ''BEARISH'', ''NEUTRAL'', ''CONFLICTED''}) \<longrightarrow>
      checkFundamentalAlignment sm fundamental)"
proof (intro conjI impI)
  assume eq: "overallBias sm = determineOverallBias tf4H tf1H"
  show "checkFundamentalAlignment sm fundamental"
  proof (rule fundamental_never_blocks, intro allI impI)
    fix bias assume "overallBias sm = Some bias"
    then have "direction bias \<in> {''BULLISH'', ''BEARISH'', ''NEUTRAL'', ''CONFLICTED''}"
      using eq determineOverallBias_directions by metis
    then show "direction bias \<noteq> ''BUY'' \<and> direction bias \<noteq> ''SELL''" by auto
  qed
next
  assume "\<exists>bias. overallBias sm = Some bias \<and>
        direction bias \<in> {''BULLISH'', ''BEARISH'', ''NEUTRAL'', ''CONFLICTED''}"
  then show "checkFundamentalAlignment sm fundamental"
    by (intro fundamental_never_blocks) auto
qed

theorem checkFundamentalAlignment_always_true_witness:
  "overallBias (aggregate bullishTimeframes)
     = determineOverallBias (bullishTimeframes ''4H'') (bullishTimeframes ''1H'') \<and>
   overallBias (aggregate bullishTimeframes) = Some \<lparr>direction = ''BULLISH'', confidence = 95\<rparr> \<and>
   checkFundamentalAlignment (aggregate bullishTimeframes) strongSell"
  using checkFundamentalAlignment_always_true
          [of "aggregate bullishTimeframes" "bullishTimeframes ''4H''" "bullishTimeframes ''1H''"
              strongSell]
  by (simp add: aggregate_def determineOverallBias_def bullishTimeframes_def analysisOf_def)

subsection \<open>The mandatory gate\<close>

lemma criterion_initial:
  "criterion (initialCriteria eng sm technical fundamental correlation marketData score)
     ''confluenceOk'' = jsBool (score \<ge> minConfluence (thresholds eng))"
  "criterion (initialCriteria eng sm technical fundamental correlation marketData score)
     ''mlProbabilityOk''
     = jsBool ((case tech_confidence technical of None \<Rightarrow> 0 | Some c \<Rightarrow> c)
               \<ge> minMLProbability (thresholds eng))"
  "criterion (initialCriteria eng sm technical fundamental correlation marketData score)
     ''smartMoneyConfirms'' = jsBool (checkSmartMoneyConfirmation sm)"
  "criterion (initialCriteria eng sm technical fundamental correlation marketData score)
     ''notRanging'' = jsBool (checkNotRanging marketData)"
  by (simp_all add: criterion_def initialCriteria_def)

lemma countTrue_jsBool:
  "countTrue [jsBool a, jsBool b, jsBool c, jsBool d] = passedCount [a, b, c, d]"
  by (simp add: countTrue_def passedCount_def jsBool_def)

lemma mandatory_count:
  "countTrue (mandatoryChecks
       (initialCriteria eng sm technical fundamental correlation marketData
          (calculateConfluence sm technical marketData)))
   = passedCount (mandatoryValues eng sm technical marketData)"
  unfolding mandatoryChecks_def criterion_initial countTrue_jsBool mandatoryValues_def ..

lemma failed_names:
  assumes "(name, ok) \<in> set (zip mandatoryNames (mandatoryValues eng sm technical marketData))"
    and "\<not> ok"
  shows "name \<in> set (map fst (filter (\<lambda>(k, v). v = JFalse)
           (initialCriteria eng sm technical fundamental correlation marketData
              (calculateConfluence sm technical marketData))))"
  using assms
  by (auto simp: mandatoryNames_def mandatoryValues_def initialCriteria_def jsBool_def)

lemma approval_is_no_rejection:
  "generateTradeSignal crit tradeSetup technical fundamental = Inr (NO_TRADE rej) \<Longrightarrow> False"
  by (auto simp: generateTradeSignal_def split: option.splits if_splits)

text \<open>
  C8. With the consecutive-loss ceiling not reached: when fewer than two of the four
  mandatory checks hold, \<^verbatim>\<open>processDecision\<close> returns the rejection of the mandatory gate
  (the one carrying the confluence score), and its \<^verbatim>\<open>failedCriteria\<close> name every
  mandatory check that failed; when at least two hold, no rejection it returns is the
  rejection of the mandatory gate.
\<close>

theorem processDecision_mandatory_gate:
  assumes "consecutiveLosses eng < maxConsecutiveLosses eng"
  shows
    "(passedCount (mandatoryValues eng sm technical marketData) < 2 \<longrightarrow>
        (\<exists>rej. processDecision eng sm technical fundamental correlation marketData
                  = Inr (NO_TRADE rej) \<and>
               rej_confluenceScore rej = Some (calculateConfluence sm technical marketData) \<and>
               (\<forall>(name, ok) \<in> set (zip mandatoryNames
                                        (mandatoryValues eng sm technical marketData)).
                  \<not> ok \<longrightarrow> name \<in> set (failedCriteria rej)))) \<and>
     (2 \<le> passedCount (mandatoryValues eng sm technical marketData) \<longrightarrow>
        (\<forall>rej. processDecision eng sm technical fundamental correlation marketData
                  = Inr (NO_TRADE rej) \<longrightarrow>
               rej_confluenceScore rej = None))"
proof (intro conjI impI)
  assume few: "passedCount (mandatoryValues eng sm technical marketData) < 2"
  let ?crit = "initialCriteria eng sm technical fundamental correlation marketData
                 (calculateConfluence sm technical marketData)"
  let ?rej = "\<lparr>failedCriteria = map fst (filter (\<lambda>(k, v). v = JFalse) ?crit),
               rej_criteria = ?crit,
               rej_confluenceScore = Some (calculateConfluence sm technical marketData)\<rparr>"
  have "processDecision eng sm technical fundamental correlation marketData
          = Inr (NO_TRADE ?rej)"
    using assms few
    by (simp add: processDecision_def Let_def mandatory_count generateRejectionDecision_def)
  moreover have
    "\<forall>(name, ok) \<in> set (zip mandatoryNames (mandatoryValues eng sm technical marketData)).
        \<not> ok \<longrightarrow> name \<in> set (failedCriteria ?rej)"
    using failed_names [of _ _ eng sm technical marketData fundamental correlation] by auto
  ultimately show
    "\<exists>rej. processDecision eng sm technical fundamental correlation marketData
              = Inr (NO_TRADE rej) \<and>
           rej_confluenceScore rej = Some (calculateConfluence sm technical marketData) \<and>
           (\<forall>(name, ok) \<in> set (zip mandatoryNames
                                    (mandatoryValues eng sm technical marketData)).
              \<not> ok \<longrightarrow> name \<in> set (failedCriteria rej))"
    by (intro exI [of _ ?rej]) simp
next
  assume enough: "2 \<le> passedCount (mandatoryValues eng sm technical marketData)"
  show "\<forall>rej. processDecision eng sm technical fundamental correlation marketData
                = Inr (NO_TRADE rej) \<longrightarrow>
             rej_confluenceScore rej = None"
    using assms enough
    by (auto simp: processDecision_def Let_def mandatory_count generateRejectionDecision_def
        dest: approval_is_no_rejection split: sum.splits if_splits)
qed

lemma gate_rejection_evaluated:
  "passedCount (mandatoryValues newDecisionEngine (aggregate neutralTimeframes)
                  silentTechnical rangingMarket) = 1"
  "calculateConfluence (aggregate neutralTimeframes) silentTechnical rangingMarket = 1"
  "processDecision newDecisionEngine (aggregate neutralTimeframes) silentTechnical
     neutralFundamental \<lparr>allowTrade = True\<rparr> rangingMarket
   = Inr (NO_TRADE
       \<lparr>failedCriteria =
          [''tf4H_1H_aligned'', ''tf15M_confirmation'', ''tf5M_entry'', ''confluenceOk'',
           ''mlProbabilityOk'', ''notRanging'', ''riskRewardOk''],
        rej_criteria =
          [(''tf4H_1H_aligned'', JFalse), (''tf15M_confirmation'', JFalse),
           (''tf5M_entry'', JFalse), (''smartMoneyConfirms'', JTrue),
           (''confluenceOk'', JFalse), (''mlProbabilityOk'', JFalse),
           (''fundamentalNotAgainst'', JTrue), (''notRanging'', JFalse),
           (''correlationAligned'', JTrue), (''stopLossValid'', JTrue),
           (''riskRewardOk'', JFalse)],
        rej_confluenceScore = Some 1\<rparr>)"
  by code_simp+

lemma later_rejection_evaluated:
  "passedCount (mandatoryValues newDecisionEngine (aggregate unconfirmedTimeframes)
                  modestTechnical trendingMarket) = 2"
  "processDecision newDecisionEngine (aggregate unconfirmedTimeframes) modestTechnical
     neutralFundamental \<lparr>allowTrade = False\<rparr> trendingMarket
   = Inr (NO_TRADE
       \<lparr>failedCriteria =
          [''tf4H_1H_aligned'', ''tf15M_confirmation'', ''smartMoneyConfirms'',
           ''confluenceOk'', ''correlationAligned''],
        rej_criteria =
          [(''tf4H_1H_aligned'', JFalse), (''tf15M_confirmation'', JFalse),
           (''tf5M_entry'', JUndefined), (''smartMoneyConfirms'', JFalse),
           (''confluenceOk'', JFalse), (''mlProbabilityOk'', JTrue),
           (''fundamentalNotAgainst'', JTrue), (''notRanging'', JTrue),
           (''correlationAligned'', JFalse), (''stopLossValid'', JTrue),
           (''riskRewardOk'', JTrue)],
        rej_confluenceScore = None\<rparr>)"
  by code_simp+

theorem processDecision_mandatory_gate_witness:
  "consecutiveLosses newDecisionEngine < maxConsecutiveLosses newDecisionEngine \<and>
   passedCount (mandatoryValues newDecisionEngine (aggregate neutralTimeframes)
                  silentTechnical rangingMarket) < 2 \<and>
   (\<exists>rej. processDecision newDecisionEngine (aggregate neutralTimeframes) silentTechnical
             neutralFundamental \<lparr>allowTrade = True\<rparr> rangingMarket = Inr (NO_TRADE rej) \<and>
          rej_confluenceScore rej = Some 1 \<and>
          ''confluenceOk'' \<in> set (failedCriteria rej) \<and>
          ''mlProbabilityOk'' \<in> set (failedCriteria rej) \<and>
          ''notRanging'' \<in> set (failedCriteria rej)) \<and>
   2 \<le> passedCount (mandatoryValues newDecisionEngine (aggregate unconfirmedTimeframes)
                       modestTechnical trendingMarket) \<and>
   (\<exists>rej. processDecision newDecisionEngine (aggregate unconfirmedTimeframes) modestTechnical
             neutralFundamental \<lparr>allowTrade = False\<rparr> trendingMarket = Inr (NO_TRADE rej) \<and>
          rej_confluenceScore rej = None)"
proof -
  have ceiling: "consecutiveLosses newDecisionEngine < maxConsecutiveLosses newDecisionEngine"
    by (simp add: newDecisionEngine_def)
  show ?thesis
    using ceiling
      processDecision_mandatory_gate [OF ceiling, of "aggregate neutralTimeframes"
        silentTechnical rangingMarket neutralFundamental "\<lparr>allowTrade = True\<rparr>"]
      processDecision_mandatory_gate [OF ceiling, of "aggregate unconfirmedTimeframes"
        modestTechnical trendingMarket neutralFundamental "\<lparr>allowTrade = False\<rparr>"]
      gate_rejection_evaluated later_rejection_evaluated
    by simp
qed

text \<open>
  C3. The claim: a CONFLICTED overall bias is a hard veto, the decision is never
  APPROVED. \<^verbatim>\<open>processDecision\<close> has no such veto: the conflict only makes the criterion
  \<^verbatim>\<open>tf4H_1H_aligned\<close> false (and even counts as a directional bias for the confluence
  score), and one false criterion out of eleven leaves the decision approved. On the
  input below the aggregator's bias is CONFLICTED with confidence 30 and the engine
  approves a trade whose direction is \<^verbatim>\<open>'CONFLICTED'\<close>.
\<close>

theorem processDecision_approves_conflicted:
  "overallBias (aggregate conflictedTimeframes)
     = Some \<lparr>direction = ''CONFLICTED'', confidence = 30\<rparr> \<and>
   processDecision newDecisionEngine (aggregate conflictedTimeframes) confidentTechnical
     neutralFundamental \<lparr>allowTrade = True\<rparr> trendingMarket
   = Inr (TRADE_APPROVED
       \<lparr>appr_direction = ''CONFLICTED'',
        appr_setup =
          \<lparr>setup_direction = ''CONFLICTED'', orderType = MARKET,
           entry = 100, stopLoss = 197 / 2, takeProfit = 103,
           riskReward = 2, stopLossPercent = Finite (3 / 2)\<rparr>,
        appr_criteria =
          [(''tf4H_1H_aligned'', JFalse), (''tf15M_confirmation'', JTrue),
           (''tf5M_entry'', JTrue), (''smartMoneyConfirms'', JTrue),
           (''confluenceOk'', JTrue), (''mlProbabilityOk'', JTrue),
           (''fundamentalNotAgainst'', JTrue), (''notRanging'', JTrue),
           (''correlationAligned'', JTrue), (''stopLossValid'', JTrue),
           (''riskRewardOk'', JTrue)]\<rparr>)"
  by code_simp

end

